theory Spec2Isabelle
  imports Main "HOL-Library.Sublist"
begin

section \<open>Python values used by the recipe processor\<close>

text \<open>
  Strings are \<open>string\<close>. A Python \<open>dict\<close> keeps its keys in insertion order, and the
  program iterates over dictionaries, so a dictionary is an association list with one
  pair per key: assigning to a key that is present overwrites its value where it
  stands, assigning to a new key appends it.
\<close>

type_synonym ('k, 'v) dict = "('k \<times> 'v) list"

fun dict_get :: "('k, 'v) dict \<Rightarrow> 'k \<Rightarrow> 'v option" where
  "dict_get [] k = None"
| "dict_get ((k', v) # d) k = (if k' = k then Some v else dict_get d k)"

fun dict_set :: "('k, 'v) dict \<Rightarrow> 'k \<Rightarrow> 'v \<Rightarrow> ('k, 'v) dict" where
  "dict_set [] k v = [(k, v)]"
| "dict_set ((k', v') # d) k v = (if k' = k then (k, v) # d else (k', v') # dict_set d k v)"

definition dict_keys :: "('k, 'v) dict \<Rightarrow> 'k list" where
  "dict_keys d = map fst d"

definition dict_values :: "('k, 'v) dict \<Rightarrow> 'v list" where
  "dict_values d = map snd d"

text \<open>\<open>dict(zip(ks, vs))\<close> and every loop that fills a dictionary: assignments in order.\<close>

fun dict_of :: "('k, 'v) dict \<Rightarrow> ('k \<times> 'v) list \<Rightarrow> ('k, 'v) dict" where
  "dict_of d [] = d"
| "dict_of d ((k, v) # kvs) = dict_of (dict_set d k v) kvs"

text \<open>
  A number of the program is either defined or the missing-data marker
  \<open>float('nan')\<close>. The type of the defined numbers is a parameter where only their
  printed form matters (costs), and \<open>int\<close> for the lookup tables of \<open>lookups.py\<close>
  (degrees and minutes), which is not part of the sources and is taken as a parameter.
\<close>

datatype 'a pynum = NaN | Num 'a

text \<open>
  Exceptions carry their class name. \<open>Exc\<close> are the classes derived from
  \<open>Exception\<close> (SyntaxError, ZeroDivisionError, TypeError, NameError, KeyError,
  ValueError, ...), \<open>BaseExc\<close> the ones that are not (SystemExit, KeyboardInterrupt),
  which \<open>except Exception\<close> lets through.
\<close>

datatype py_exc = Exc string | BaseExc string

section \<open>LookupMatcher.find_match\<close>

text \<open>\<open>str.lower\<close> on ASCII text: the letters A..Z move to a..z, all else stays.\<close>

definition lower_char :: "char \<Rightarrow> char" where
  "lower_char c =
     (case map_of (zip ''ABCDEFGHIJKLMNOPQRSTUVWXYZ'' ''abcdefghijklmnopqrstuvwxyz'') c of
        Some l \<Rightarrow> l
      | None \<Rightarrow> c)"

definition lower :: "string \<Rightarrow> string" where
  "lower s = map lower_char s"

text \<open>Python's \<open>needle in hay\<close> on strings: \<open>needle\<close> starts at some position of \<open>hay\<close>.\<close>

fun contains :: "string \<Rightarrow> string \<Rightarrow> bool" where
  "contains needle [] = (needle = [])"
| "contains needle (h # hs) = (prefix needle (h # hs) \<or> contains needle hs)"

text \<open>The loop of lines 28 to 33 over the keys that are still to be visited.\<close>

fun find_match_scan :: "string \<Rightarrow> string list \<Rightarrow> string option" where
  "find_match_scan key_lower [] = None"
| "find_match_scan key_lower (lookup_key # rest) =
     (if contains key_lower (lower lookup_key) \<or> contains (lower lookup_key) key_lower
      then Some lookup_key
      else find_match_scan key_lower rest)"

definition find_match :: "string \<Rightarrow> (string, 'v) dict \<Rightarrow> string option" where
  "find_match key lookup_dict =
     (if key \<in> set (dict_keys lookup_dict) then Some key
      else find_match_scan (lower key) (dict_keys lookup_dict))"

text \<open>
  The words of the specification: a key of the table matches a query when one of the two
  lowercase strings is a substring of the other.
\<close>

definition substring_match :: "string \<Rightarrow> string \<Rightarrow> bool" where
  "substring_match key lookup_key \<longleftrightarrow>
     sublist (lower key) (lower lookup_key) \<or> sublist (lower lookup_key) (lower key)"

section \<open>RecipeProcessor.calculate_recipe_costs\<close>

text \<open>The rows of the sheets \<open>dish\<close> and \<open>dish_ingredient\<close>, a field per column.\<close>

record dish_row =
  dish :: string
  recipe_cost :: string
  temperature :: string
  duration :: string

record dish_ingredient_row =
  di_dish :: string
  di_ingredient :: string
  di_ingredient_map :: string

text \<open>
  \<open>str.replace(old, new)\<close>: the occurrences of \<open>old\<close> are found from the left, and the
  search goes on behind each occurrence it has replaced. An empty \<open>old\<close> puts \<open>new\<close> in
  front of every character and at the end.
\<close>

function py_replace_scan :: "string \<Rightarrow> string \<Rightarrow> string \<Rightarrow> string" where
  "py_replace_scan old new [] = []"
| "py_replace_scan old new (c # cs) =
     (if prefix old (c # cs) then new @ py_replace_scan old new (drop (length old - 1) cs)
      else c # py_replace_scan old new cs)"
  by pat_completeness auto
termination
  by (relation "measure (\<lambda>(old, new, s). length s)") auto

definition py_replace :: "string \<Rightarrow> string \<Rightarrow> string \<Rightarrow> string" where
  "py_replace s old new =
     (if old = [] then concat (map (\<lambda>c. new @ [c]) s) @ new else py_replace_scan old new s)"

text \<open>\<open>str\<close> of a Python \<open>int\<close>, for the examples: decimal digits, a minus sign in front.\<close>

definition digit_char :: "nat \<Rightarrow> char" where
  "digit_char d = ''0123456789'' ! d"

function str_nat :: "nat \<Rightarrow> string" where
  "str_nat n = (if n < 10 then [digit_char n] else str_nat (n div 10) @ [digit_char (n mod 10)])"
  by pat_completeness auto
termination
  by (relation "measure (\<lambda>n. n)") auto

definition str_int :: "int \<Rightarrow> string" where
  "str_int i = (if i < 0 then CHR ''-'' # str_nat (nat (- i)) else str_nat (nat i))"

text \<open>
  \<open>str(cost)\<close>: the marker prints as \<open>nan\<close>; how a defined number prints is the
  parameter \<open>sh\<close>.
\<close>

fun str_cost :: "('a \<Rightarrow> string) \<Rightarrow> 'a pynum \<Rightarrow> string" where
  "str_cost sh NaN = ''nan''"
| "str_cost sh (Num a) = sh a"

text \<open>Lines 110 to 112: the loop over \<open>ingredients.items()\<close>.\<close>

fun substitute :: "('a \<Rightarrow> string) \<Rightarrow> string \<Rightarrow> (string, 'a pynum) dict \<Rightarrow> string" where
  "substitute sh formula_eval [] = formula_eval"
| "substitute sh formula_eval ((var, cost) # rest) =
     substitute sh (py_replace formula_eval var (str_cost sh cost)) rest"

text \<open>
  Lines 117 to 122: the string that reaches the call of \<open>eval\<close>, or \<open>None\<close> when the
  branch of the missing ingredients is taken and \<open>eval\<close> is not called.
\<close>

definition eval_call :: "('a \<Rightarrow> string) \<Rightarrow> string \<Rightarrow> (string, 'a pynum) dict \<Rightarrow> string option" where
  "eval_call sh formula ingredients =
     (let formula_eval = substitute sh formula ingredients
      in if contains ''nan'' formula_eval then None else Some formula_eval)"

text \<open>
  Lines 108 to 125, the \<open>try\<close> statement of one dish. Python's \<open>eval\<close> is the parameter
  \<open>ev\<close>: it returns a number or raises. \<open>except Exception\<close> turns the exceptions
  derived from \<open>Exception\<close> into the marker; any other exception leaves the method.
\<close>

definition dish_cost ::
  "(string \<Rightarrow> py_exc + 'a pynum) \<Rightarrow> ('a \<Rightarrow> string) \<Rightarrow> string \<Rightarrow> (string, 'a pynum) dict
     \<Rightarrow> py_exc + 'a pynum" where
  "dish_cost ev sh formula ingredients =
     (case eval_call sh formula ingredients of
        None \<Rightarrow> Inr NaN
      | Some formula_eval \<Rightarrow>
          (case ev formula_eval of
             Inr v \<Rightarrow> Inr v
           | Inl (Exc e) \<Rightarrow> Inr NaN
           | Inl (BaseExc e) \<Rightarrow> Inl (BaseExc e)))"

text \<open>Lines 85 to 98: the variables of every dish, with the cost of their ingredients.\<close>

definition get_or_empty :: "('k, ('j, 'v) dict) dict \<Rightarrow> 'k \<Rightarrow> ('j, 'v) dict" where
  "get_or_empty d k = (case dict_get d k of None \<Rightarrow> [] | Some m \<Rightarrow> m)"

fun dish_ingredients_loop ::
  "(string, 'a pynum) dict \<Rightarrow> dish_ingredient_row list
     \<Rightarrow> (string, (string, 'a pynum) dict) dict \<Rightarrow> (string, (string, 'a pynum) dict) dict" where
  "dish_ingredients_loop cost_lookup [] dish_ingredients = dish_ingredients"
| "dish_ingredients_loop cost_lookup (row # rows) dish_ingredients =
     (let d = di_dish row;
          ingredient = di_ingredient row;
          mapping = di_ingredient_map row;
          vars = get_or_empty dish_ingredients d;
          cost = (case dict_get cost_lookup ingredient of Some c \<Rightarrow> c | None \<Rightarrow> NaN)
      in dish_ingredients_loop cost_lookup rows
           (dict_set dish_ingredients d (dict_set vars mapping cost)))"

text \<open>Lines 101 to 125: the loop over the dishes.\<close>

fun recipe_costs_loop ::
  "(string \<Rightarrow> py_exc + 'a pynum) \<Rightarrow> ('a \<Rightarrow> string)
     \<Rightarrow> (string, (string, 'a pynum) dict) dict \<Rightarrow> dish_row list
     \<Rightarrow> (string, 'a pynum) dict \<Rightarrow> py_exc + (string, 'a pynum) dict" where
  "recipe_costs_loop ev sh dish_ingredients [] recipe_costs = Inr recipe_costs"
| "recipe_costs_loop ev sh dish_ingredients (row # rows) recipe_costs =
     (case dish_cost ev sh (recipe_cost row) (get_or_empty dish_ingredients (dish row)) of
        Inl e \<Rightarrow> Inl e
      | Inr c \<Rightarrow> recipe_costs_loop ev sh dish_ingredients rows
                   (dict_set recipe_costs (dish row) c))"

definition calculate_recipe_costs ::
  "(string \<Rightarrow> py_exc + 'a pynum) \<Rightarrow> ('a \<Rightarrow> string) \<Rightarrow> dish_row list
     \<Rightarrow> dish_ingredient_row list \<Rightarrow> (string \<times> 'a pynum) list
     \<Rightarrow> py_exc + (string, 'a pynum) dict" where
  "calculate_recipe_costs ev sh dish_df dish_ingredient_df ingredient_cost_df =
     (let cost_lookup = dict_of [] ingredient_cost_df;
          dish_ingredients = dish_ingredients_loop cost_lookup dish_ingredient_df []
      in recipe_costs_loop ev sh dish_ingredients dish_df [])"

text \<open>
  The character set of the specification, outside of which a formula is to be rejected
  before it is evaluated.
\<close>

definition spec_allowed_chars :: string where
  "spec_allowed_chars = ''0123456789.+-*/() ''"

section \<open>RecipeProcessor.calculate_energy_flags\<close>

text \<open>
  The tables \<open>temperature_lookup\<close> and \<open>duration_lookup\<close> map a key to a Python
  \<open>int\<close>. Arithmetic and comparisons with the marker follow IEEE: a product with the
  marker is the marker, and every comparison with the marker is false.
\<close>

fun py_mul :: "int pynum \<Rightarrow> int pynum \<Rightarrow> int pynum" where
  "py_mul (Num a) (Num b) = Num (a * b)"
| "py_mul _ _ = NaN"

fun py_gt :: "int pynum \<Rightarrow> int pynum \<Rightarrow> bool" where
  "py_gt (Num a) (Num b) = (a > b)"
| "py_gt _ _ = False"

fun py_eq :: "int pynum \<Rightarrow> int pynum \<Rightarrow> bool" where
  "py_eq (Num a) (Num b) = (a = b)"
| "py_eq _ _ = False"

text \<open>
  Lines 131 to 142. \<open>if matched_key:\<close> tests the truth value of the result of
  \<open>find_match\<close>: \<open>None\<close> and the empty string both fail it. A matched key is a key of
  the table, so the last \<open>None\<close> case below is never reached.
\<close>

definition get_temperature :: "(string, int) dict \<Rightarrow> string \<Rightarrow> int pynum" where
  "get_temperature temperature_lookup temp_key =
     (case find_match temp_key temperature_lookup of
        None \<Rightarrow> NaN
      | Some matched_key \<Rightarrow>
          if matched_key \<noteq> [] then
            (case dict_get temperature_lookup matched_key of Some v \<Rightarrow> Num v | None \<Rightarrow> NaN)
          else NaN)"

text \<open>Lines 144 to 150: an exact lookup, the \<open>KeyError\<close> caught.\<close>

definition get_duration_lookup :: "(string, int) dict \<Rightarrow> string \<Rightarrow> int pynum" where
  "get_duration_lookup duration_lookup duration_key =
     (case dict_get duration_lookup duration_key of Some v \<Rightarrow> Num v | None \<Rightarrow> NaN)"

text \<open>Lines 157 to 167.\<close>

fun energies_loop ::
  "(string, int) dict \<Rightarrow> (string, int) dict \<Rightarrow> dish_row list
     \<Rightarrow> (string, int pynum) dict \<Rightarrow> (string, int pynum) dict" where
  "energies_loop temperature_lookup duration_lookup [] energies = energies"
| "energies_loop temperature_lookup duration_lookup (row # rows) energies =
     (let temp_degC = get_temperature temperature_lookup (temperature row);
          time_mins = get_duration_lookup duration_lookup (duration row);
          energy = py_mul temp_degC time_mins
      in energies_loop temperature_lookup duration_lookup rows
           (dict_set energies (dish row) energy))"

text \<open>
  The builtin \<open>max\<close> of an iterable: it starts from the first item and moves to a later
  item when that item is greater than the one it holds; on no item it raises
  \<open>ValueError\<close>.
\<close>

fun py_max_from :: "int pynum \<Rightarrow> int pynum list \<Rightarrow> int pynum" where
  "py_max_from maxitem [] = maxitem"
| "py_max_from maxitem (item # items) =
     py_max_from (if py_gt item maxitem then item else maxitem) items"

fun py_max :: "int pynum list \<Rightarrow> py_exc + int pynum" where
  "py_max [] = Inl (Exc ''ValueError'')"
| "py_max (item # items) = Inr (py_max_from item items)"

text \<open>Lines 152 to 174; the result is \<open>(most_energy_flags, energies)\<close>.\<close>

definition calculate_energy_flags ::
  "(string, int) dict \<Rightarrow> (string, int) dict \<Rightarrow> dish_row list
     \<Rightarrow> py_exc + ((string, bool) dict \<times> (string, int pynum) dict)" where
  "calculate_energy_flags temperature_lookup duration_lookup dish_df =
     (let energies = energies_loop temperature_lookup duration_lookup dish_df []
      in case py_max (dict_values energies) of
           Inl e \<Rightarrow> Inl e
         | Inr max_energy \<Rightarrow>
             Inr (map (\<lambda>(d, energy). (d, py_eq energy max_energy)) energies, energies))"

section \<open>RecipeProcessor.generate_summary and save_to_csv\<close>

record 'a summary_row =
  s_dish :: string
  recipe_cash_cost :: "'a pynum"
  temp_degC :: "int pynum"
  time_mins :: "int pynum"
  most_energy :: bool

text \<open>Lines 184 to 202: one \<open>append\<close> for each row of the dish sheet.\<close>

fun summary_loop ::
  "(string, 'a pynum) dict \<Rightarrow> (string, bool) dict \<Rightarrow> (string, int) dict
     \<Rightarrow> (string, int) dict \<Rightarrow> dish_row list \<Rightarrow> 'a summary_row list \<Rightarrow> 'a summary_row list" where
  "summary_loop recipe_costs most_energy_flags temperature_lookup duration_lookup []
     summary_data = summary_data"
| "summary_loop recipe_costs most_energy_flags temperature_lookup duration_lookup (row # rows)
     summary_data =
     summary_loop recipe_costs most_energy_flags temperature_lookup duration_lookup rows
       (summary_data @
         [\<lparr> s_dish = dish row,
            recipe_cash_cost =
              (case dict_get recipe_costs (dish row) of Some c \<Rightarrow> c | None \<Rightarrow> NaN),
            temp_degC = get_temperature temperature_lookup (temperature row),
            time_mins = get_duration_lookup duration_lookup (duration row),
            most_energy =
              (case dict_get most_energy_flags (dish row) of Some b \<Rightarrow> b | None \<Rightarrow> False) \<rparr>])"

definition generate_summary ::
  "(string, 'a pynum) dict \<Rightarrow> (string, bool) dict \<Rightarrow> (string, int) dict
     \<Rightarrow> (string, int) dict \<Rightarrow> dish_row list \<Rightarrow> 'a summary_row list" where
  "generate_summary recipe_costs most_energy_flags temperature_lookup duration_lookup dish_df =
     summary_loop recipe_costs most_energy_flags temperature_lookup duration_lookup dish_df []"








text \<open>
  The words of the specification for the energy flags: the defined energies, over which
  the maximum is to be taken.
\<close>

fun defined_values :: "int pynum list \<Rightarrow> int list" where
  "defined_values [] = []"
| "defined_values (NaN # xs) = defined_values xs"
| "defined_values (Num a # xs) = a # defined_values xs"

section \<open>Properties of find_match\<close>

lemma contains_iff_sublist: "contains needle hay \<longleftrightarrow> sublist needle hay"
  by (induction hay) (auto simp: sublist_Cons_right)

lemma contains_Nil [simp]: "contains [] hay"
  by (simp add: contains_iff_sublist)

lemma find_match_scan_eq_find:
  "find_match_scan (lower key) ks = List.find (substring_match key) ks"
  by (induction ks) (simp_all add: substring_match_def contains_iff_sublist)

lemma lower_Nil [simp]: "lower [] = []"
  by (simp add: lower_def)

text \<open>
  C6. A key that is an entry of the table, with the same case, is returned itself,
  whatever substring matches the table offers; \<open>find_match("X", {"X": 1, "XY": 2})\<close>
  is \<open>"X"\<close>.
\<close>

theorem find_match_exact:
  "(key \<in> set (dict_keys lookup_dict) \<longrightarrow> find_match key lookup_dict = Some key)
   \<and> find_match ''X'' [(''X'', 1 :: int), (''XY'', 2)] = Some ''X''
   \<and> find_match ''X'' [(''XY'', 2 :: int), (''X'', 1)] = Some ''X''"
  by (simp add: find_match_def dict_keys_def)

theorem find_match_exact_witness:
  "''b'' \<in> set (dict_keys [(''ab'', 1 :: int), (''b'', 2)])
   \<and> find_match ''b'' [(''ab'', 1 :: int), (''b'', 2)] = Some ''b''"
  using find_match_exact [of "''b''" "[(''ab'', 1 :: int), (''b'', 2)]"]
  by (simp add: dict_keys_def)

text \<open>
  C7. When the key is not an entry of the table, the keys are scanned in the table's
  order and the first one that matches by substring, either way round and ignoring case,
  is returned: the result is the key at the least matching index. When no key matches
  the result is \<open>None\<close>. The function is total: it returns on every input.
\<close>

theorem find_match_substring:
  "key \<notin> set (dict_keys lookup_dict) \<Longrightarrow>
     find_match key lookup_dict = List.find (substring_match key) (dict_keys lookup_dict)
     \<and> (find_match key lookup_dict = Some k \<longleftrightarrow>
          (\<exists>i < length (dict_keys lookup_dict).
              dict_keys lookup_dict ! i = k \<and> substring_match key k
              \<and> (\<forall>j < i. \<not> substring_match key (dict_keys lookup_dict ! j))))
     \<and> (find_match key lookup_dict = None \<longleftrightarrow>
          (\<forall>k' \<in> set (dict_keys lookup_dict). \<not> substring_match key k'))"
  by (auto simp: find_match_def find_match_scan_eq_find find_Some_iff find_None_iff)

theorem find_match_substring_witness:
  "''med'' \<notin> set (dict_keys [(''Low'', 1::int), (''Medium'', 2), (''medium-high'', 3)])
   \<and> find_match ''med'' [(''Low'', 1::int), (''Medium'', 2), (''medium-high'', 3)]
       = Some ''Medium''
   \<and> List.find (substring_match ''med'')
        (dict_keys [(''Low'', 1::int), (''Medium'', 2), (''medium-high'', 3)]) = Some ''Medium''
   \<and> ''zzz'' \<notin> set (dict_keys [(''Low'', 1::int), (''Medium'', 2)])
   \<and> find_match ''zzz'' [(''Low'', 1::int), (''Medium'', 2)] = None
   \<and> \<not> substring_match ''zzz'' ''Low'' \<and> \<not> substring_match ''zzz'' ''Medium''"
proof -
  let ?d = "[(''Low'', 1::int), (''Medium'', 2), (''medium-high'', 3)]"
  let ?e = "[(''Low'', 1::int), (''Medium'', 2)]"
  have h: "''med'' \<notin> set (dict_keys ?d)"
    by (simp add: dict_keys_def)
  have v: "find_match ''med'' ?d = Some ''Medium''"
    by (simp add: find_match_def dict_keys_def lower_def lower_char_def)
  have h': "''zzz'' \<notin> set (dict_keys ?e)"
    by (simp add: dict_keys_def)
  have v': "find_match ''zzz'' ?e = None"
    by (simp add: find_match_def dict_keys_def lower_def lower_char_def)
  from find_match_substring [OF h, of "''Medium''"]
       find_match_substring [OF h', of "''Low''"] h v h' v'
  show ?thesis by (simp add: dict_keys_def)
qed

text \<open>
  C10, as stated, fails: a query whose lowercase form is contained in the first key's
  lowercase form does not resolve to the first key when the query is itself a later key
  of the table, because the exact match of lines 23 and 24 comes first.
\<close>

theorem find_match_first_key_counterexample:
  "contains (lower ''X'') (lower ''XY'')
   \<and> find_match ''X'' [(''XY'', 2 :: int), (''X'', 1)] = Some ''X''
   \<and> find_match ''X'' [(''XY'', 2 :: int), (''X'', 1)] \<noteq> Some ''XY''"
  by (simp add: find_match_def dict_keys_def lower_def lower_char_def)

text \<open>
  C10, amended. On a non-empty table without the empty string as a key, the empty query
  resolves to the first key; and every query that is not one of the later keys of the
  table and whose lowercase form is contained in the first key's lowercase form resolves
  to the first key.
\<close>

theorem find_match_first_key:
  "([] \<notin> set (dict_keys ((k0, v0) # rest)) \<longrightarrow> find_match [] ((k0, v0) # rest) = Some k0)
   \<and> (key \<notin> set (dict_keys rest) \<and> sublist (lower key) (lower k0)
        \<longrightarrow> find_match key ((k0, v0) # rest) = Some k0)"
  by (auto simp: find_match_def dict_keys_def contains_iff_sublist)

theorem find_match_first_key_witness:
  "[] \<notin> set (dict_keys [(''Medium'', 2 :: int), (''Low'', 1)])
   \<and> find_match [] [(''Medium'', 2 :: int), (''Low'', 1)] = Some ''Medium''
   \<and> ''DIU'' \<notin> set (dict_keys [(''Low'', 1 :: int)])
   \<and> sublist (lower ''DIU'') (lower ''Medium'')
   \<and> find_match ''DIU'' [(''Medium'', 2 :: int), (''Low'', 1)] = Some ''Medium''"
proof -
  have s: "sublist (lower ''DIU'') (lower ''Medium'')"
    unfolding contains_iff_sublist [symmetric] by (simp add: lower_def lower_char_def)
  from find_match_first_key [of "''Medium''" "2 :: int" "[(''Low'', 1)]" "''DIU''"] s
  show ?thesis by (simp add: dict_keys_def)
qed

section \<open>Properties of the formula substitution and evaluation\<close>

lemma substitute_foldl:
  "substitute sh formula ingredients
     = foldl (\<lambda>s (var, cost). py_replace s var (str_cost sh cost)) formula ingredients"
  by (induction ingredients arbitrary: formula) auto

lemma substitute_append:
  "substitute sh formula (xs @ ys) = substitute sh (substitute sh formula xs) ys"
  by (induction xs arbitrary: formula) auto

lemma py_replace_scan_absent:
  "\<not> sublist old s \<Longrightarrow> py_replace_scan old new s = s"
proof (induction old new s rule: py_replace_scan.induct)
  case (1 old new)
  then show ?case by simp
next
  case (2 old new c cs)
  then show ?case by (auto simp: sublist_Cons_right)
qed

lemma py_replace_absent: "\<not> sublist old s \<Longrightarrow> py_replace s old new = s"
  by (auto simp: py_replace_def py_replace_scan_absent)

lemma py_replace_scan_present:
  "sublist old s \<Longrightarrow> old \<noteq> [] \<Longrightarrow> sublist new (py_replace_scan old new s)"
proof (induction old new s rule: py_replace_scan.induct)
  case (1 old new)
  then show ?case by simp
next
  case (2 old new c cs)
  show ?case
  proof (cases "prefix old (c # cs)")
    case True
    then show ?thesis by (simp add: sublist_append_rightI)
  next
    case False
    with 2 have "sublist new (py_replace_scan old new cs)"
      by (simp add: sublist_Cons_right)
    with False show ?thesis by (simp add: sublist_Cons_right)
  qed
qed

lemma py_replace_present:
  "sublist old s \<Longrightarrow> old \<noteq> [] \<Longrightarrow> sublist new (py_replace s old new)"
  by (simp add: py_replace_def py_replace_scan_present)

text \<open>
  C4. The substitution is textual: the variables of the mapping are taken in the
  mapping's order, each one replaced in the string that the earlier replacements have
  left, by the printed form of its cost. It is the left fold of \<open>str.replace\<close> over the
  mapping. For the formula \<open>AA+A\<close> the order decides: with \<open>A\<close> first the string is
  \<open>11+1\<close>, and that string goes to the evaluator; with \<open>AA\<close> first it is \<open>2+1\<close>.
\<close>

theorem substitution_is_textual:
  "substitute sh formula [] = formula
   \<and> substitute sh formula (ingredients @ [(var, cost)])
       = py_replace (substitute sh formula ingredients) var (str_cost sh cost)
   \<and> substitute sh formula ingredients
       = foldl (\<lambda>s (var, cost). py_replace s var (str_cost sh cost)) formula ingredients
   \<and> substitute str_int ''AA+A'' [(''A'', Num 1), (''AA'', Num 2)] = ''11+1''
   \<and> substitute str_int ''AA+A'' [(''AA'', Num 2), (''A'', Num 1)] = ''2+1''
   \<and> eval_call str_int ''AA+A'' [(''A'', Num 1), (''AA'', Num 2)] = Some ''11+1''"
proof -
  have "substitute str_int ''AA+A'' [(''A'', Num 1), (''AA'', Num 2)] = ''11+1''"
    by (simp add: py_replace_def str_int_def digit_char_def)
  moreover have "substitute str_int ''AA+A'' [(''AA'', Num 2), (''A'', Num 1)] = ''2+1''"
    by (simp add: py_replace_def str_int_def digit_char_def)
  moreover have "eval_call str_int ''AA+A'' [(''A'', Num 1), (''AA'', Num 2)] = Some ''11+1''"
    by (simp add: eval_call_def py_replace_def str_int_def digit_char_def)
  moreover have "substitute sh formula (ingredients @ [(var, cost)])
       = py_replace (substitute sh formula ingredients) var (str_cost sh cost)"
    by (simp add: substitute_append)
  moreover note substitute_foldl [of sh formula ingredients]
  ultimately show ?thesis
    by (simp only: substitute.simps simp_thms)
qed

text \<open>
  C3, as stated, fails: a variable of the mapping that carries the marker and does not
  occur in the formula leaves no \<open>nan\<close> in the string, and the evaluator is called.
\<close>

theorem unused_nan_variable_counterexample:
  "dict_get [(''A'', Num (2 :: int)), (''B'', NaN)] ''B'' = Some NaN
   \<and> eval_call str_int ''A+1'' [(''A'', Num 2), (''B'', NaN)] = Some ''2+1''"
  by (simp add: eval_call_def py_replace_def str_int_def digit_char_def)

text \<open>
  C3, amended. The evaluator is not called, and the cost is the marker, exactly when the
  substituted string contains \<open>nan\<close>; this is so when the last variable of the mapping
  carries the marker and its name, not empty, occurs in the string substituted so far.
\<close>

theorem nan_in_substituted_formula:
  "(eval_call sh formula ingredients = None
      \<longleftrightarrow> sublist ''nan'' (substitute sh formula ingredients))
   \<and> (sublist ''nan'' (substitute sh formula ingredients)
        \<longrightarrow> dish_cost ev sh formula ingredients = Inr NaN)
   \<and> (var \<noteq> [] \<and> sublist var (substitute sh formula ingredients)
        \<longrightarrow> eval_call sh formula (ingredients @ [(var, NaN)]) = None
            \<and> dish_cost ev sh formula (ingredients @ [(var, NaN)]) = Inr NaN)"
proof -
  have a: "eval_call sh f xs = None \<longleftrightarrow> sublist ''nan'' (substitute sh f xs)" for f xs
    by (simp add: eval_call_def contains_iff_sublist Let_def)
  have b: "dish_cost ev sh f xs = Inr NaN" if "eval_call sh f xs = None" for f xs
    using that by (simp add: dish_cost_def)
  have c: "sublist ''nan'' (substitute sh formula (ingredients @ [(var, NaN)]))"
    if "var \<noteq> []" "sublist var (substitute sh formula ingredients)"
    using that by (simp add: substitute_append py_replace_present)
  show ?thesis using a b c by blast
qed

theorem nan_in_substituted_formula_witness:
  "sublist ''nan'' (substitute str_int ''A+B'' [(''A'', NaN), (''B'', Num 3)])
   \<and> eval_call str_int ''A+B'' [(''A'', NaN), (''B'', Num 3)] = None
   \<and> dish_cost (\<lambda>s. Inr (Num 5)) str_int ''A+B'' [(''A'', NaN), (''B'', Num 3)] = Inr NaN
   \<and> ''B'' \<noteq> [] \<and> sublist ''B'' (substitute str_int ''A+B'' [(''A'', Num 2)])
   \<and> eval_call str_int ''A+B'' ([(''A'', Num 2)] @ [(''B'', NaN)]) = None
   \<and> dish_cost (\<lambda>s. Inr (Num 5)) str_int ''A+B'' ([(''A'', Num 2)] @ [(''B'', NaN)]) = Inr NaN"
proof -
  have s1: "substitute str_int ''A+B'' [(''A'', NaN), (''B'', Num 3)] = ''nan+3''"
    by (simp add: py_replace_def str_int_def digit_char_def)
  have s2: "substitute str_int ''A+B'' [(''A'', Num 2)] = ''2+B''"
    by (simp add: py_replace_def str_int_def digit_char_def)
  have h1: "sublist ''nan'' (substitute str_int ''A+B'' [(''A'', NaN), (''B'', Num 3)])"
    unfolding s1 contains_iff_sublist [symmetric] by simp
  have h2: "sublist ''B'' (substitute str_int ''A+B'' [(''A'', Num 2)])"
    unfolding s2 contains_iff_sublist [symmetric] by simp
  from nan_in_substituted_formula
         [of str_int "''A+B''" "[(''A'', NaN), (''B'', Num 3)]" "\<lambda>s. Inr (Num 5)"]
       nan_in_substituted_formula
         [of str_int "''A+B''" "[(''A'', Num 2)]" "\<lambda>s. Inr (Num 5)" "''B''"]
       h1 h2
  show ?thesis by simp
qed

text \<open>
  C2. The claim asks that a formula with a character outside \<open>[0-9.+-*/(). ]\<close> is
  rejected before evaluation. The code has no such check: with no variables, every
  formula without \<open>nan\<close> in it reaches \<open>eval\<close> as it is. The formula \<open>exit()\<close> is
  passed on, and what happens is what the evaluator does with it.
\<close>

theorem eval_is_unrestricted:
  "eval_call sh formula [] = (if contains ''nan'' formula then None else Some formula)
   \<and> CHR ''x'' \<in> set ''exit()'' \<and> CHR ''x'' \<notin> set spec_allowed_chars
   \<and> eval_call str_int ''exit()'' [] = Some ''exit()''
   \<and> dish_cost ev str_int ''exit()'' []
       = (case ev ''exit()'' of
            Inr v \<Rightarrow> Inr v
          | Inl (Exc e) \<Rightarrow> Inr NaN
          | Inl (BaseExc e) \<Rightarrow> Inl (BaseExc e))"
  by (simp add: eval_call_def dish_cost_def spec_allowed_chars_def)

section \<open>Properties of the dictionaries\<close>

lemma dict_get_set: "dict_get (dict_set d k v) k' = (if k' = k then Some v else dict_get d k')"
  by (induction d) auto

lemma dict_keys_set_order:
  "dict_keys (dict_set d k v)
     = (if k \<in> set (dict_keys d) then dict_keys d else dict_keys d @ [k])"
  by (induction d) (force simp: dict_keys_def)+

lemma dict_keys_set: "set (dict_keys (dict_set d k v)) = insert k (set (dict_keys d))"
  by (auto simp: dict_keys_set_order)

lemma dict_get_None_iff: "dict_get d k = None \<longleftrightarrow> k \<notin> set (dict_keys d)"
  by (induction d) (force simp: dict_keys_def)+

lemma dict_of_append: "dict_of d (xs @ ys) = dict_of (dict_of d xs) ys"
  by (induction xs arbitrary: d) auto

lemma dict_get_dict_of_absent:
  "k \<notin> fst ` set kvs \<Longrightarrow> dict_get (dict_of d kvs) k = dict_get d k"
  by (induction kvs arbitrary: d) (auto simp: dict_get_set)

lemma dict_get_dict_of_last:
  "k \<notin> fst ` set post \<Longrightarrow> dict_get (dict_of d (pre @ (k, v) # post)) k = Some v"
  by (simp add: dict_of_append dict_get_dict_of_absent dict_get_set)

lemma dict_keys_dict_of:
  "set (dict_keys (dict_of d kvs)) = set (dict_keys d) \<union> fst ` set kvs"
proof (induction kvs arbitrary: d)
  case Nil
  then show ?case by simp
next
  case (Cons kv kvs)
  obtain k v where kv: "kv = (k, v)" by (cases kv)
  show ?case unfolding kv by (simp add: Cons.IH dict_keys_set)
qed

lemma dict_keys_dict_of_Nil: "set (dict_keys (dict_of [] kvs)) = fst ` set kvs"
  unfolding dict_keys_dict_of by (simp add: dict_keys_def)

lemma get_or_empty_set:
  "get_or_empty (dict_set d k v) k' = (if k' = k then v else get_or_empty d k')"
  by (simp add: get_or_empty_def dict_get_set)

section \<open>Properties of calculate_recipe_costs\<close>

text \<open>
  After the loop of lines 86 to 98 a dish with rows in the mapping sheet has the
  dictionary that its rows build, in their order, each variable with the cost of its
  ingredient or with the marker; a dish without rows has no entry.
\<close>

lemma dish_ingredients_loop_get:
  "dict_get (dish_ingredients_loop cost_lookup rows acc) d =
     (if d \<in> di_dish ` set rows
      then Some (dict_of (get_or_empty acc d)
                  (map (\<lambda>r. (di_ingredient_map r,
                              case dict_get cost_lookup (di_ingredient r) of
                                Some c \<Rightarrow> c | None \<Rightarrow> NaN))
                       (filter (\<lambda>r. di_dish r = d) rows)))
      else dict_get acc d)"
proof (induction rows arbitrary: acc)
  case Nil
  then show ?case by simp
next
  case (Cons r rows)
  show ?case
  proof (cases "di_dish r = d")
    case True
    then show ?thesis
      by (simp add: Cons.IH Let_def get_or_empty_set dict_get_set)
        (metis (mono_tags, lifting) dict_of.simps(1) filter_False image_iff list.simps(8))
  next
    case False
    then show ?thesis
      by (simp add: Cons.IH Let_def get_or_empty_set dict_get_set)
  qed
qed

lemma recipe_costs_loop_ok:
  "\<forall>row \<in> set rows. \<forall>e.
      dish_cost ev sh (recipe_cost row) (get_or_empty DI (dish row)) \<noteq> Inl e \<Longrightarrow>
   recipe_costs_loop ev sh DI rows acc
     = Inr (dict_of acc
         (map (\<lambda>row. (dish row,
                 case dish_cost ev sh (recipe_cost row) (get_or_empty DI (dish row)) of
                   Inr c \<Rightarrow> c | Inl e \<Rightarrow> NaN)) rows))"
proof (induction rows arbitrary: acc)
  case Nil
  then show ?case by simp
next
  case (Cons row rows)
  then show ?case
    by (cases "dish_cost ev sh (recipe_cost row) (get_or_empty DI (dish row))") auto
qed

lemma dish_cost_no_BaseExc:
  "\<forall>s n. ev s \<noteq> Inl (BaseExc n) \<Longrightarrow> dish_cost ev sh formula ings \<noteq> Inl e"
  by (auto simp: dish_cost_def split: option.splits sum.splits py_exc.splits)

lemma dish_cost_Exc:
  "ev (substitute sh formula ings) = Inl (Exc e) \<Longrightarrow> dish_cost ev sh formula ings = Inr NaN"
  by (simp add: dish_cost_def eval_call_def Let_def)

text \<open>
  C5. When the evaluation of a dish's substituted formula fails with an exception derived
  from \<open>Exception\<close> (SyntaxError for a malformed expression, ZeroDivisionError,
  TypeError, NameError, OverflowError, ...), the cost of the dish is the marker, and the
  loop goes on with the remaining dishes, the marker stored for this one. When the
  evaluator raises nothing outside \<open>Exception\<close>, the whole method returns, with an entry
  for every dish and no other, and the entry of a dish is the outcome of its own
  \<open>try\<close> statement (of its last row, should the dish occur in several rows): a failure
  in one dish changes no other entry.
\<close>

theorem evaluation_failure_contained:
  "(ev (substitute sh formula ings) = Inl (Exc e)
      \<longrightarrow> dish_cost ev sh formula ings = Inr NaN)
   \<and> (ev (substitute sh (recipe_cost row) (get_or_empty DI (dish row))) = Inl (Exc e)
      \<longrightarrow> recipe_costs_loop ev sh DI (row # rows) acc
           = recipe_costs_loop ev sh DI rows (dict_set acc (dish row) NaN))
   \<and> ((\<forall>s n. ev s \<noteq> Inl (BaseExc n))
      \<longrightarrow> (\<exists>costs.
             calculate_recipe_costs ev sh dish_df dish_ingredient_df ingredient_cost_df
               = Inr costs
             \<and> set (dict_keys costs) = dish ` set dish_df
             \<and> (\<forall>pre r post. dish_df = pre @ r # post \<and> dish r \<notin> dish ` set post \<longrightarrow>
                  map_option Inr (dict_get costs (dish r))
                  = Some (dish_cost ev sh (recipe_cost r)
                      (get_or_empty
                         (dish_ingredients_loop (dict_of [] ingredient_cost_df)
                            dish_ingredient_df [])
                         (dish r))))))"
proof (intro conjI impI)
  assume "ev (substitute sh formula ings) = Inl (Exc e)"
  then show "dish_cost ev sh formula ings = Inr NaN"
    by (rule dish_cost_Exc)
next
  assume "ev (substitute sh (recipe_cost row) (get_or_empty DI (dish row))) = Inl (Exc e)"
  then have "dish_cost ev sh (recipe_cost row) (get_or_empty DI (dish row)) = Inr NaN"
    by (rule dish_cost_Exc)
  then show "recipe_costs_loop ev sh DI (row # rows) acc
           = recipe_costs_loop ev sh DI rows (dict_set acc (dish row) NaN)"
    by simp
next
  assume nb: "\<forall>s n. ev s \<noteq> Inl (BaseExc n)"
  define DI' where
    "DI' = dish_ingredients_loop (dict_of [] ingredient_cost_df) dish_ingredient_df []"
  define val where
    "val = (\<lambda>r :: dish_row. case dish_cost ev sh (recipe_cost r) (get_or_empty DI' (dish r)) of
                   Inr c \<Rightarrow> c | Inl e \<Rightarrow> NaN)"
  define costs where "costs = dict_of [] (map (\<lambda>r. (dish r, val r)) dish_df)"
  have ok: "dish_cost ev sh (recipe_cost r) (get_or_empty DI' (dish r)) = Inr (val r)" for r
    using dish_cost_no_BaseExc [OF nb, of sh "recipe_cost r" "get_or_empty DI' (dish r)"]
    by (cases "dish_cost ev sh (recipe_cost r) (get_or_empty DI' (dish r))")
       (auto simp: val_def)
  have run: "calculate_recipe_costs ev sh dish_df dish_ingredient_df ingredient_cost_df
               = Inr costs"
    unfolding calculate_recipe_costs_def Let_def DI'_def [symmetric] costs_def val_def
    by (rule recipe_costs_loop_ok) (simp add: ok)
  have keys: "set (dict_keys costs) = dish ` set dish_df"
    by (simp add: costs_def dict_keys_dict_of_Nil image_image)
  have last: "map_option Inr (dict_get costs (dish r))
                = Some (dish_cost ev sh (recipe_cost r) (get_or_empty DI' (dish r)))"
    if "dish_df = pre @ r # post" "dish r \<notin> dish ` set post" for pre r post
  proof -
    have "dish r \<notin> fst ` set (map (\<lambda>r. (dish r, val r)) post)"
      using that(2) by (simp add: image_image)
    then have "dict_get costs (dish r) = Some (val r)"
      unfolding costs_def that(1) using dict_get_dict_of_last
        [of "dish r" "map (\<lambda>r. (dish r, val r)) post" "[]"
            "map (\<lambda>r. (dish r, val r)) pre" "val r"]
      by simp
    then show ?thesis by (simp add: ok)
  qed
  show "\<exists>costs.
             calculate_recipe_costs ev sh dish_df dish_ingredient_df ingredient_cost_df
               = Inr costs
             \<and> set (dict_keys costs) = dish ` set dish_df
             \<and> (\<forall>pre r post. dish_df = pre @ r # post \<and> dish r \<notin> dish ` set post \<longrightarrow>
                  map_option Inr (dict_get costs (dish r))
                  = Some (dish_cost ev sh (recipe_cost r)
                      (get_or_empty
                         (dish_ingredients_loop (dict_of [] ingredient_cost_df)
                            dish_ingredient_df [])
                         (dish r))))"
    using run keys last unfolding DI'_def by blast
qed


theorem evaluation_failure_contained_witness:
  "(\<lambda>s. if s = ''1/0'' then Inl (Exc ''ZeroDivisionError'') else Inr (Num (3 :: int)))
      (substitute str_int ''A/0'' [(''A'', Num 1)]) = Inl (Exc ''ZeroDivisionError'')
   \<and> dish_cost (\<lambda>s. if s = ''1/0'' then Inl (Exc ''ZeroDivisionError'') else Inr (Num 3))
        str_int ''A/0'' [(''A'', Num 1)] = Inr NaN
   \<and> (\<forall>s n. (if s = ''1/0'' then Inl (Exc ''ZeroDivisionError'') else Inr (Num (3 :: int)))
          \<noteq> Inl (BaseExc n))
   \<and> calculate_recipe_costs
        (\<lambda>s. if s = ''1/0'' then Inl (Exc ''ZeroDivisionError'') else Inr (Num 3)) str_int
        [\<lparr>dish = ''pie'', recipe_cost = ''A/0'', temperature = ''hot'', duration = ''long''\<rparr>,
         \<lparr>dish = ''tea'', recipe_cost = ''3'', temperature = ''hot'', duration = ''long''\<rparr>]
        [\<lparr>di_dish = ''pie'', di_ingredient = ''flour'', di_ingredient_map = ''A''\<rparr>]
        [(''flour'', Num 1)]
       = Inr [(''pie'', NaN), (''tea'', Num 3)]"
proof -
  let ?ev = "\<lambda>s. if s = ''1/0'' then Inl (Exc ''ZeroDivisionError'') else Inr (Num (3 :: int))"
  have s: "substitute str_int ''A/0'' [(''A'', Num 1)] = ''1/0''"
    by (simp add: py_replace_def str_int_def digit_char_def)
  have h: "?ev (substitute str_int ''A/0'' [(''A'', Num 1)]) = Inl (Exc ''ZeroDivisionError'')"
    unfolding s by simp
  have nb: "\<forall>s n. ?ev s \<noteq> Inl (BaseExc n)"
    by simp
  have c1: "dish_cost ?ev str_int ''A/0'' [(''A'', Num 1)] = Inr NaN"
    unfolding dish_cost_def eval_call_def Let_def s by simp
  have c2: "dish_cost ?ev str_int ''3'' [] = Inr (Num 3)"
    by (simp add: dish_cost_def eval_call_def)
  have run: "calculate_recipe_costs ?ev str_int
        [\<lparr>dish = ''pie'', recipe_cost = ''A/0'', temperature = ''hot'', duration = ''long''\<rparr>,
         \<lparr>dish = ''tea'', recipe_cost = ''3'', temperature = ''hot'', duration = ''long''\<rparr>]
        [\<lparr>di_dish = ''pie'', di_ingredient = ''flour'', di_ingredient_map = ''A''\<rparr>]
        [(''flour'', Num 1)]
       = Inr [(''pie'', NaN), (''tea'', Num 3)]"
    by (simp add: calculate_recipe_costs_def get_or_empty_def c1 c2)
  from evaluation_failure_contained
         [of ?ev str_int "''A/0''" "[(''A'', Num 1)]" "''ZeroDivisionError''"] h nb run
  show ?thesis by simp
qed

text \<open>
  C8. Every row of the mapping sheet leaves its variable in the dictionary of its dish.
  The value of a variable is the exact lookup of the ingredient of the last row for that
  dish and variable: the cost in the table, or the marker when the ingredient is not a
  key of the table, which is the case exactly when no row of the cost sheet names it.
  A dish without rows in the mapping sheet gets the empty dictionary: its formula is
  substituted with nothing and evaluated as it stands.
\<close>

theorem dish_ingredient_mapping:
  "(r \<in> set rows \<longrightarrow>
      (\<exists>vars. dict_get (dish_ingredients_loop cost_lookup rows []) (di_dish r) = Some vars
            \<and> di_ingredient_map r \<in> set (dict_keys vars)))
   \<and> (rows = pre @ r # post
        \<and> (\<forall>r' \<in> set post. di_dish r' = di_dish r
               \<longrightarrow> di_ingredient_map r' \<noteq> di_ingredient_map r)
      \<longrightarrow> dict_get (get_or_empty (dish_ingredients_loop cost_lookup rows []) (di_dish r))
             (di_ingredient_map r)
           = Some (case dict_get cost_lookup (di_ingredient r) of
                     Some c \<Rightarrow> c | None \<Rightarrow> NaN))
   \<and> (dict_get (dict_of [] ingredient_cost_df) i = None
        \<longleftrightarrow> i \<notin> fst ` set ingredient_cost_df)
   \<and> (d \<notin> di_dish ` set rows
      \<longrightarrow> get_or_empty (dish_ingredients_loop cost_lookup rows []) d = []
          \<and> substitute sh formula
               (get_or_empty (dish_ingredients_loop cost_lookup rows []) d) = formula)
   \<and> (dish row \<notin> di_dish ` set rows
      \<longrightarrow> recipe_costs_loop ev sh (dish_ingredients_loop cost_lookup rows []) (row # rest) acc
          = (case dish_cost ev sh (recipe_cost row) [] of
               Inl e \<Rightarrow> Inl e
             | Inr c \<Rightarrow> recipe_costs_loop ev sh (dish_ingredients_loop cost_lookup rows [])
                          rest (dict_set acc (dish row) c)))"
proof -
  let ?DI = "dish_ingredients_loop cost_lookup rows []"
  let ?f = "\<lambda>r. (di_ingredient_map r,
                 case dict_get cost_lookup (di_ingredient r) of Some c \<Rightarrow> c | None \<Rightarrow> NaN)"
  have get: "dict_get ?DI d' =
     (if d' \<in> di_dish ` set rows
      then Some (dict_of [] (map ?f (filter (\<lambda>r. di_dish r = d') rows)))
      else None)" for d'
    using dish_ingredients_loop_get [of cost_lookup rows "[]" d']
    by (simp add: get_or_empty_def)
  have a: "\<exists>vars. dict_get ?DI (di_dish r) = Some vars
            \<and> di_ingredient_map r \<in> set (dict_keys vars)" if "r \<in> set rows"
  proof -
    have "di_ingredient_map r
            \<in> fst ` set (map ?f (filter (\<lambda>r'. di_dish r' = di_dish r) rows))"
      using that by (force simp: image_iff)
    then show ?thesis
      using that by (simp add: get dict_keys_dict_of_Nil)
  qed
  have b: "dict_get (get_or_empty ?DI (di_dish r)) (di_ingredient_map r)
           = Some (case dict_get cost_lookup (di_ingredient r) of
                     Some c \<Rightarrow> c | None \<Rightarrow> NaN)"
    if rows: "rows = pre @ r # post"
      and later: "\<forall>r' \<in> set post. di_dish r' = di_dish r
               \<longrightarrow> di_ingredient_map r' \<noteq> di_ingredient_map r"
  proof -
    let ?P = "\<lambda>r'. di_dish r' = di_dish r"
    have "di_ingredient_map r \<notin> fst ` set (map ?f (filter ?P post))"
      using later by (auto simp: image_iff)
    then have last: "dict_get
                 (dict_of [] (map ?f (filter ?P pre) @ ?f r # map ?f (filter ?P post)))
                 (di_ingredient_map r) = Some (snd (?f r))"
      using dict_get_dict_of_last
        [of "di_ingredient_map r" "map ?f (filter ?P post)" "[]"
            "map ?f (filter ?P pre)" "snd (?f r)"]
      by simp
    have flt: "map ?f (filter ?P rows)
                 = map ?f (filter ?P pre) @ ?f r # map ?f (filter ?P post)"
      by (simp add: rows)
    have mem: "di_dish r \<in> di_dish ` set rows"
      by (simp add: rows)
    have "get_or_empty ?DI (di_dish r)
            = dict_of [] (map ?f (filter ?P pre) @ ?f r # map ?f (filter ?P post))"
      unfolding get_or_empty_def get flt [symmetric] using mem by simp
    with last show ?thesis by simp
  qed
  have c: "dict_get (dict_of [] ingredient_cost_df) i = None
        \<longleftrightarrow> i \<notin> fst ` set ingredient_cost_df"
    by (simp add: dict_get_None_iff dict_keys_dict_of_Nil)
  have d: "get_or_empty ?DI d' = []" if "d' \<notin> di_dish ` set rows" for d'
    using that by (simp add: get_or_empty_def get)
  show ?thesis
    using a b c d [of d] d [of "dish row"] by simp
qed

theorem dish_ingredient_mapping_witness:
  "\<lparr>di_dish = ''pie'', di_ingredient = ''salt'', di_ingredient_map = ''B''\<rparr>
     \<in> set [\<lparr>di_dish = ''pie'', di_ingredient = ''flour'', di_ingredient_map = ''A''\<rparr>,
            \<lparr>di_dish = ''pie'', di_ingredient = ''salt'', di_ingredient_map = ''B''\<rparr>]
   \<and> dish_ingredients_loop [(''flour'', Num (1 :: int))]
        [\<lparr>di_dish = ''pie'', di_ingredient = ''flour'', di_ingredient_map = ''A''\<rparr>,
         \<lparr>di_dish = ''pie'', di_ingredient = ''salt'', di_ingredient_map = ''B''\<rparr>] []
       = [(''pie'', [(''A'', Num 1), (''B'', NaN)])]
   \<and> dict_get [(''flour'', Num (1 :: int))] ''salt'' = None
   \<and> ''salt'' \<notin> fst ` set [(''flour'', Num (1 :: int))]
   \<and> ''tea'' \<notin> di_dish `
        set [\<lparr>di_dish = ''pie'', di_ingredient = ''flour'', di_ingredient_map = ''A''\<rparr>,
             \<lparr>di_dish = ''pie'', di_ingredient = ''salt'', di_ingredient_map = ''B''\<rparr>]
   \<and> substitute str_int ''1+2''
        (get_or_empty
          (dish_ingredients_loop [(''flour'', Num (1 :: int))]
            [\<lparr>di_dish = ''pie'', di_ingredient = ''flour'', di_ingredient_map = ''A''\<rparr>,
             \<lparr>di_dish = ''pie'', di_ingredient = ''salt'', di_ingredient_map = ''B''\<rparr>] [])
          ''tea'') = ''1+2''"
proof -
  let ?r1 = "\<lparr>di_dish = ''pie'', di_ingredient = ''flour'', di_ingredient_map = ''A''\<rparr>"
  let ?r2 = "\<lparr>di_dish = ''pie'', di_ingredient = ''salt'', di_ingredient_map = ''B''\<rparr>"
  have run: "dish_ingredients_loop [(''flour'', Num (1 :: int))] [?r1, ?r2] []
       = [(''pie'', [(''A'', Num 1), (''B'', NaN)])]"
    by (simp add: get_or_empty_def)
  have absent: "''tea'' \<notin> di_dish ` set [?r1, ?r2]"
    by simp
  from dish_ingredient_mapping
         [of ?r2 "[?r1, ?r2]" "[(''flour'', Num (1 :: int))]" "[?r1]" "[]"
             "[(''flour'', Num (1 :: int))]" "''salt''" "''tea''" str_int "''1+2''"]
       run absent
  show ?thesis by simp
qed

section \<open>Properties of calculate_energy_flags\<close>

text \<open>
  What \<open>max\<close> returns depends on the first energy. When it is the marker, no later
  energy is greater than it and the marker is the result; no energy equals the marker,
  so no dish is flagged. When it is defined, the result is the maximum of the defined
  energies, and the flagged dishes are exactly those whose energy equals it. On an empty
  dish sheet \<open>max\<close> raises \<open>ValueError\<close>.
\<close>

lemma py_max_from_NaN: "py_max_from NaN xs = NaN"
  by (induction xs) auto

lemma py_max_from_Num:
  "py_max_from (Num a) xs = Num (Max (set (a # defined_values xs)))"
proof (induction xs arbitrary: a)
  case Nil
  then show ?case by simp
next
  case (Cons x xs)
  show ?case
  proof (cases x)
    case NaN
    then show ?thesis by (simp add: Cons.IH)
  next
    case (Num b)
    let ?S = "set (defined_values xs)"
    have ge_a: "a \<le> Max (insert a ?S)" and ge_b: "b \<le> Max (insert b ?S)"
      by simp_all
    have ab: "Max (insert a (insert b ?S)) = max a (Max (insert b ?S))"
      by simp
    have ba: "Max (insert a (insert b ?S)) = max b (Max (insert a ?S))"
      by (subst insert_commute) simp
    show ?thesis
    proof (cases "a < b")
      case True
      from True ge_b have "a \<le> Max (insert b ?S)"
        by linarith
      then have "max a (Max (insert b ?S)) = Max (insert b ?S)"
        by (rule max_absorb2)
      with True Num ab show ?thesis
        by (simp add: Cons.IH)
    next
      case False
      from False ge_a have "b \<le> Max (insert a ?S)"
        by linarith
      then have "max b (Max (insert a ?S)) = Max (insert a ?S)"
        by (rule max_absorb2)
      with False Num ba show ?thesis
        by (simp add: Cons.IH)
    qed
  qed
qed

lemma py_eq_NaN [simp]: "py_eq e NaN = False"
  by (cases e) auto



lemma calculate_energy_flags_first_NaN:
  "energies_loop tlk dlk dish_df [] = (d, NaN) # es \<Longrightarrow>
   calculate_energy_flags tlk dlk dish_df
     = Inr (map (\<lambda>(d, e). (d, False)) ((d, NaN) # es), (d, NaN) # es)"
  by (simp add: calculate_energy_flags_def dict_values_def py_max_from_NaN)

lemma calculate_energy_flags_first_Num:
  "energies_loop tlk dlk dish_df [] = (d, Num a) # es \<Longrightarrow>
   calculate_energy_flags tlk dlk dish_df
     = Inr (map (\<lambda>(d', e). (d', e = Num (Max (set (defined_values (Num a # map snd es))))))
              ((d, Num a) # es),
            (d, Num a) # es)"
proof -
  have eq: "py_eq e (Num m) \<longleftrightarrow> e = Num m" for e m
    by (cases e) auto
  assume "energies_loop tlk dlk dish_df [] = (d, Num a) # es"
  then show ?thesis
    by (simp add: calculate_energy_flags_def dict_values_def py_max_from_Num eq)
qed


lemma energy_flags_ties:
  "calculate_energy_flags [(''low'', 1), (''high'', 2)] [(''ten'', 10)]
        [\<lparr>dish = ''d1'', recipe_cost = ''1'', temperature = ''low'', duration = ''ten''\<rparr>,
         \<lparr>dish = ''d2'', recipe_cost = ''1'', temperature = ''high'', duration = ''ten''\<rparr>,
         \<lparr>dish = ''d3'', recipe_cost = ''1'', temperature = ''high'', duration = ''ten''\<rparr>]
     = Inr ([(''d1'', False), (''d2'', True), (''d3'', True)],
            [(''d1'', Num 10), (''d2'', Num 20), (''d3'', Num 20)])"
  by (simp add: calculate_energy_flags_def dict_values_def get_temperature_def
        get_duration_lookup_def find_match_def dict_keys_def)

text \<open>
  C1. The claim takes the maximum over the defined energies only. The code takes
  \<open>max\<close> over all energies: with the dish \<open>soup\<close> first, whose temperature key
  \<open>cold\<close> matches no key of the table, the energies are \<open>nan\<close> and \<open>12000\<close>, the
  maximum is the marker, and \<open>roast\<close>, the dish of the greatest defined energy, is not
  flagged. With the same two dishes in the other order \<open>roast\<close> is flagged.
\<close>

theorem energy_flags_nan_first:
  "calculate_energy_flags [(''hot'', 200)] [(''long'', 60)]
        [\<lparr>dish = ''soup'', recipe_cost = ''1'', temperature = ''cold'', duration = ''long''\<rparr>,
         \<lparr>dish = ''roast'', recipe_cost = ''2'', temperature = ''hot'', duration = ''long''\<rparr>]
     = Inr ([(''soup'', False), (''roast'', False)], [(''soup'', NaN), (''roast'', Num 12000)])
   \<and> calculate_energy_flags [(''hot'', 200)] [(''long'', 60)]
        [\<lparr>dish = ''roast'', recipe_cost = ''2'', temperature = ''hot'', duration = ''long''\<rparr>,
         \<lparr>dish = ''soup'', recipe_cost = ''1'', temperature = ''cold'', duration = ''long''\<rparr>]
     = Inr ([(''roast'', True), (''soup'', False)], [(''roast'', Num 12000), (''soup'', NaN)])"
  by (simp add: calculate_energy_flags_def dict_values_def get_temperature_def
        get_duration_lookup_def find_match_def dict_keys_def lower_def lower_char_def)

section \<open>Properties of generate_summary and save_to_csv\<close>


lemma summary_loop_map:
  "summary_loop rc fl tlk dlk rows acc
     = acc @ map (\<lambda>row.
         \<lparr> s_dish = dish row,
           recipe_cash_cost = (case dict_get rc (dish row) of Some c \<Rightarrow> c | None \<Rightarrow> NaN),
           temp_degC = get_temperature tlk (temperature row),
           time_mins = get_duration_lookup dlk (duration row),
           most_energy = (case dict_get fl (dish row) of Some b \<Rightarrow> b | None \<Rightarrow> False) \<rparr>) rows"
  by (induction rows arbitrary: acc) auto

lemma generate_summary_dishes:
  "map s_dish (generate_summary rc fl tlk dlk dish_df) = map dish dish_df"
  by (simp add: generate_summary_def summary_loop_map comp_def)





end
